theory Spec2Isabelle
  imports Complex_Main "HOL-Library.Word"
begin

section \<open>Staking pool rewards: the data model\<close>

text \<open>
  The embedding follows \<open>MixinStakingPoolRewards.sol\<close> (Solidity 0.5.9). Arithmetic
  on \<open>uint256\<close> is the EVM's: \<open>+\<close>, \<open>-\<close> and \<open>*\<close> wrap modulo \<open>2 ^ 256\<close> (the contract
  declares \<open>using LibSafeMath\<close> but calls none of its functions), and a division by zero
  aborts the call.

  The declarations of \<open>IStructs.StoredStakeBalance\<close>, \<open>IStructs.ND\<close>, \<open>getCurrentEpoch\<close> and
  the storage variables live in files that are imported, not shown. The widths of the
  epoch counter and of the stake amounts are therefore parameters of the model: an epoch
  is an \<open>'e word\<close>, a stake amount an \<open>'s word\<close>, and both are widened to \<open>uint256\<close>
  where the contract assigns them to a \<open>uint256\<close>.
\<close>

type_synonym uint256 = "256 word"
type_synonym bytes32 = "256 word"
type_synonym address = "160 word"

text \<open>\<open>IStructs.ND\<close>: a ratio as numerator and denominator. A storage slot that was never
  written reads as numerator 0 and denominator 0.\<close>

record ND =
  numerator :: uint256
  denominator :: uint256

text \<open>\<open>IStructs.StoredStakeBalance\<close>. The field \<open>next\<close> of the contract is \<open>nextBalance\<close>
  here, since \<open>next\<close> is reserved in Isabelle.\<close>

record (overloaded) ('e, 's) StoredStakeBalance =
  lastStored :: "'e word"
  nextBalance :: "'s word"
  current :: "'s word"

text \<open>The storage the two functions touch, and the reward vault.

  Modelled from the spec: the reward vault, an external contract whose code is not in this
  file. The specification has the payout sink take \<open>(poolId, member, amount)\<close>, complete
  or fail as a whole, and never call back into the accounting. Here \<open>vaultTransfers\<close> is
  the list of the transfers the vault has carried out, and \<open>vaultAccepts\<close> says, from the
  transfers carried out so far, whether the vault carries out a call
  \<open>transferMemberBalanceToEthVault(poolId, member, amount)\<close>; a vault that reverts, or an
  address with no contract behind it, accepts nothing, and the caller reverts with it.

  The functions are defined on every extension of the record, so that the rest of the
  contract's storage (the pool aggregates among it) is the \<open>more\<close> part of the state.\<close>

record (overloaded) ('e, 's) storage =
  currentEpoch :: "'e word"
  delegatedStakeToPoolByOwner :: "address \<Rightarrow> bytes32 \<Rightarrow> ('e, 's) StoredStakeBalance"
  rewardRatioSums :: "uint256 \<Rightarrow> ND"
  rewardVault :: address
  vaultAccepts :: "(bytes32 \<times> address \<times> uint256) list \<Rightarrow> bytes32 \<Rightarrow> address \<Rightarrow> uint256 \<Rightarrow> bool"
  vaultTransfers :: "(bytes32 \<times> address \<times> uint256) list"

datatype error = DivisionByZero | RequireFailed string | ExternalCallReverted

section \<open>The operations\<close>

text \<open>Modelled from the spec: the epoch clock \<open>getCurrentEpoch\<close>, a function of the
  scheduler mixin whose code is not in this file. The specification has it return the
  current epoch, which advances only from outside; here it reads the epoch of the state.\<close>

definition getCurrentEpoch :: "('e::len, 's::len, 'z) storage_scheme \<Rightarrow> 'e word" where
  "getCurrentEpoch s = currentEpoch s"

text \<open>The EVM's unsigned division: the call aborts when the divisor is zero.\<close>

definition evm_div :: "uint256 \<Rightarrow> uint256 \<Rightarrow> error + uint256" where
  "evm_div a b = (if b = 0 then Inl DivisionByZero else Inr (a div b))"

text \<open>Lines 97--98 and 108--109 are the same two statements, on the stake amount of the
  leg: \<open>rewardRatioN\<close> by cross-multiplication, then \<open>rewardRatio\<close> by two divisions.\<close>

definition rewardRatio :: "uint256 \<Rightarrow> ND \<Rightarrow> ND \<Rightarrow> error + uint256" where
  "rewardRatio stake beginRatio endRatio =
     (let rewardRatioN = numerator endRatio * denominator beginRatio
                         - numerator beginRatio * denominator endRatio
      in case evm_div rewardRatioN (denominator beginRatio) of
           Inl e \<Rightarrow> Inl e
         | Inr q \<Rightarrow> evm_div (stake * q) (denominator endRatio))"

text \<open>The \<open>current\<close> leg (lines 91--100): skipped when \<open>delegatedStake.current\<close> is 0. The
  subtraction \<open>lastStored - 1\<close> is done at the width of \<open>lastStored\<close>, then widened.\<close>

definition currentLeg ::
    "('e::len, 's::len, 'z) storage_scheme \<Rightarrow> ('e, 's) StoredStakeBalance \<Rightarrow> error + uint256" where
  "currentLeg s delegatedStake =
     (if current delegatedStake \<noteq> 0 then
        (let beginEpoch = (ucast (lastStored delegatedStake - 1) :: uint256);
             endEpoch = (ucast (lastStored delegatedStake) :: uint256);
             beginRatio = rewardRatioSums s beginEpoch;
             endRatio = rewardRatioSums s endEpoch
         in case rewardRatio (ucast (current delegatedStake)) beginRatio endRatio of
              Inl e \<Rightarrow> Inl e
            | Inr r \<Rightarrow> Inr (0 + r))
      else Inr 0)"

text \<open>The \<open>next\<close> leg (lines 102--111): always evaluated. The epoch is widened first and
  1 is subtracted at 256 bits.\<close>

definition nextLeg ::
    "('e::len, 's::len, 'z) storage_scheme \<Rightarrow> ('e, 's) StoredStakeBalance \<Rightarrow> uint256
       \<Rightarrow> error + uint256" where
  "nextLeg s delegatedStake totalReward =
     (let beginEpoch = (ucast (lastStored delegatedStake) :: uint256);
          endEpoch = (ucast (getCurrentEpoch s) :: uint256) - 1;
          beginRatio = rewardRatioSums s beginEpoch;
          endRatio = rewardRatioSums s endEpoch
      in case rewardRatio (ucast (nextBalance delegatedStake)) beginRatio endRatio of
           Inl e \<Rightarrow> Inl e
         | Inr r \<Rightarrow> Inr (totalReward + r))"

definition computeRewardBalanceOfStakingPoolMember ::
    "('e::len, 's::len, 'z) storage_scheme \<Rightarrow> bytes32 \<Rightarrow> address \<Rightarrow> error + uint256" where
  "computeRewardBalanceOfStakingPoolMember s poolId member =
     (let delegatedStake = delegatedStakeToPoolByOwner s member poolId
      in if getCurrentEpoch s = 0 \<or> lastStored delegatedStake = getCurrentEpoch s then Inr 0
         else case currentLeg s delegatedStake of
                Inl e \<Rightarrow> Inl e
              | Inr totalReward \<Rightarrow> nextLeg s delegatedStake totalReward)"

text \<open>\<open>syncRewardBalanceOfStakingPoolMember\<close> (lines 120--133). A failed call reverts, so
  no storage is returned with an error; the call fails on its \<open>require\<close> (line 129) and
  when the external call of line 130 is not carried out. Nothing follows the comment
  \<open>Remove the reference\<close> in the contract: the function ends after the call to the vault.\<close>

definition syncRewardBalanceOfStakingPoolMember ::
    "('e::len, 's::len, 'z) storage_scheme \<Rightarrow> bytes32 \<Rightarrow> address
       \<Rightarrow> error + ('e, 's, 'z) storage_scheme" where
  "syncRewardBalanceOfStakingPoolMember s poolId member =
     (case computeRewardBalanceOfStakingPoolMember s poolId member of
        Inl e \<Rightarrow> Inl e
      | Inr balance \<Rightarrow>
          if balance = 0 then Inr s
          else if rewardVault s = 0 then Inl (RequireFailed ''eyo'')
          else if \<not> vaultAccepts s (vaultTransfers s) poolId member balance
          then Inl ExternalCallReverted
          else Inr (s\<lparr>vaultTransfers := vaultTransfers s @ [(poolId, member, balance)]\<rparr>))"

subsection \<open>The same operations, with their steps\<close>

text \<open>The steps a call takes: the reads of storage and the external call. The two functions
  are written out once more, each returning the list of its steps next to its result.\<close>

datatype step =
    ReadStake address bytes32
  | ReadEpoch
  | ReadRatio uint256
  | ReadVault
  | CallVault bytes32 address uint256

text \<open>One leg: the two lookups (lines 95--96, 106--107), then the arithmetic.\<close>

definition rewardRatioSteps ::
    "('e::len, 's::len, 'z) storage_scheme \<Rightarrow> uint256 \<Rightarrow> uint256 \<Rightarrow> uint256
       \<Rightarrow> step list \<times> (error + uint256)" where
  "rewardRatioSteps s stake beginEpoch endEpoch =
     ([ReadRatio beginEpoch, ReadRatio endEpoch],
      rewardRatio stake (rewardRatioSums s beginEpoch) (rewardRatioSums s endEpoch))"

text \<open>Line 87 reads the member's record; line 88 reads the epoch, and once more when it is
  not 0; line 105 reads it again.\<close>

definition computeRewardBalanceSteps ::
    "('e::len, 's::len, 'z) storage_scheme \<Rightarrow> bytes32 \<Rightarrow> address
       \<Rightarrow> step list \<times> (error + uint256)" where
  "computeRewardBalanceSteps s poolId member =
     (let delegatedStake = delegatedStakeToPoolByOwner s member poolId;
          ls = lastStored delegatedStake;
          entry = [ReadStake member poolId, ReadEpoch]
      in if getCurrentEpoch s = 0 then (entry, Inr 0)
         else if ls = getCurrentEpoch s then (entry @ [ReadEpoch], Inr 0)
         else
           (let leg1 = (if current delegatedStake \<noteq> 0
                        then rewardRatioSteps s (ucast (current delegatedStake))
                               (ucast (ls - 1)) (ucast ls)
                        else ([], Inr 0))
            in case snd leg1 of
                 Inl e \<Rightarrow> (entry @ [ReadEpoch] @ fst leg1, Inl e)
               | Inr totalReward \<Rightarrow>
                   (let leg2 = rewardRatioSteps s (ucast (nextBalance delegatedStake))
                                 (ucast ls) (ucast (getCurrentEpoch s) - 1)
                    in (entry @ [ReadEpoch] @ fst leg1 @ [ReadEpoch] @ fst leg2,
                        case snd leg2 of
                          Inl e \<Rightarrow> Inl e
                        | Inr r \<Rightarrow> Inr (totalReward + r)))))"

text \<open>Lines 129 and 130 each read \<open>rewardVault\<close>; line 130 makes the external call.\<close>

definition syncRewardBalanceSteps ::
    "('e::len, 's::len, 'z) storage_scheme \<Rightarrow> bytes32 \<Rightarrow> address
       \<Rightarrow> step list \<times> (error + ('e, 's, 'z) storage_scheme)" where
  "syncRewardBalanceSteps s poolId member =
     (let computed = computeRewardBalanceSteps s poolId member
      in case snd computed of
           Inl e \<Rightarrow> (fst computed, Inl e)
         | Inr balance \<Rightarrow>
             if balance = 0 then (fst computed, Inr s)
             else if rewardVault s = 0
             then (fst computed @ [ReadVault], Inl (RequireFailed ''eyo''))
             else if \<not> vaultAccepts s (vaultTransfers s) poolId member balance
             then (fst computed @ [ReadVault, ReadVault, CallVault poolId member balance],
                   Inl ExternalCallReverted)
             else (fst computed @ [ReadVault, ReadVault, CallVault poolId member balance],
                   Inr (s\<lparr>vaultTransfers :=
                            vaultTransfers s @ [(poolId, member, balance)]\<rparr>)))"

section \<open>The scenario of the specification\<close>

text \<open>Member A delegated 100 units at epoch 1, so A's record has \<open>lastStored = 1\<close>,
  \<open>next = 100\<close> and \<open>current = 0\<close>; the ratio of epoch 1 is 0 (stored as 0/1), the ratio
  of epoch 2 is 10/1 after 1000 units were credited on a total stake of 100; the clock
  shows epoch 3. A reward vault is configured and carries out every transfer. Epochs are
  64 bits wide and stake amounts 96 bits wide here.\<close>

definition memberA :: address where
  "memberA = 10"

text \<open>A second address, which never delegated: its record is all zero.\<close>

definition memberB :: address where
  "memberB = 11"

definition pool1 :: bytes32 where
  "pool1 = 1"

definition emptyRecord :: "(64, 96) StoredStakeBalance" where
  "emptyRecord = \<lparr>lastStored = 0, nextBalance = 0, current = 0\<rparr>"

definition recordA :: "(64, 96) StoredStakeBalance" where
  "recordA = \<lparr>lastStored = 1, nextBalance = 100, current = 0\<rparr>"

definition unsetRatio :: ND where
  "unsetRatio = \<lparr>numerator = 0, denominator = 0\<rparr>"

definition scenarioLedger :: "uint256 \<Rightarrow> ND" where
  "scenarioLedger epoch =
     (if epoch = 1 then \<lparr>numerator = 0, denominator = 1\<rparr>
      else if epoch = 2 then \<lparr>numerator = 10, denominator = 1\<rparr>
      else unsetRatio)"

definition scenario :: "(64, 96) storage" where
  "scenario =
     \<lparr>currentEpoch = 3,
      delegatedStakeToPoolByOwner =
        (\<lambda>member poolId. if member = memberA \<and> poolId = pool1 then recordA else emptyRecord),
      rewardRatioSums = scenarioLedger,
      rewardVault = 77,
      vaultAccepts = (\<lambda>sofar poolId member amount. True),
      vaultTransfers = []\<rparr>"

text \<open>The state after A's first settlement, as the contract leaves it.\<close>

definition scenarioPaid :: "(64, 96) storage" where
  "scenarioPaid = scenario\<lparr>vaultTransfers := [(pool1, memberA, 1000)]\<rparr>"

text \<open>The same state with no reward vault configured.\<close>

definition scenarioNoVault :: "(64, 96) storage" where
  "scenarioNoVault = scenario\<lparr>rewardVault := 0\<rparr>"

text \<open>The same state with a vault that carries out nothing.\<close>

definition scenarioVaultReverts :: "(64, 96) storage" where
  "scenarioVaultReverts = scenario\<lparr>vaultAccepts := (\<lambda>sofar poolId member amount. False)\<rparr>"

text \<open>One epoch later with nothing credited at epoch 3: the clock shows epoch 4 and the
  ledger has no entry for epoch 3.\<close>

definition scenarioGap :: "(64, 96) storage" where
  "scenarioGap = scenario\<lparr>currentEpoch := 4\<rparr>"

text \<open>A longer history, for a member with stake in both legs: the record has
  \<open>lastStored = 2\<close>, \<open>current = 50\<close> and \<open>next = 100\<close>, the clock shows epoch 5, and the
  ledger holds 0/1, 10/1 and 20/1 at epochs 1, 2 and 3 and nothing at epoch 4.\<close>

definition recordBoth :: "(64, 96) StoredStakeBalance" where
  "recordBoth = \<lparr>lastStored = 2, nextBalance = 100, current = 50\<rparr>"

definition lateGapLedger :: "uint256 \<Rightarrow> ND" where
  "lateGapLedger epoch =
     (if epoch = 1 then \<lparr>numerator = 0, denominator = 1\<rparr>
      else if epoch = 2 then \<lparr>numerator = 10, denominator = 1\<rparr>
      else if epoch = 3 then \<lparr>numerator = 20, denominator = 1\<rparr>
      else unsetRatio)"

definition scenarioLateGap :: "(64, 96) storage" where
  "scenarioLateGap =
     \<lparr>currentEpoch = 5,
      delegatedStakeToPoolByOwner =
        (\<lambda>member poolId. if member = memberA \<and> poolId = pool1 then recordBoth else emptyRecord),
      rewardRatioSums = lateGapLedger,
      rewardVault = 77,
      vaultAccepts = (\<lambda>sofar poolId member amount. True),
      vaultTransfers = []\<rparr>"

text \<open>That ledger with the entry of epoch 3, the last one set before epoch 4, replaced.\<close>

definition otherLedger :: "uint256 \<Rightarrow> ND" where
  "otherLedger epoch =
     (if epoch = 3 then \<lparr>numerator = 999, denominator = 1\<rparr> else lateGapLedger epoch)"

text \<open>The same member at epoch 4, on a ledger whose ratios do not divide evenly: 0/1, 10/3
  and 20/3 at epochs 1, 2 and 3.\<close>

definition thirdsLedger :: "uint256 \<Rightarrow> ND" where
  "thirdsLedger epoch =
     (if epoch = 1 then \<lparr>numerator = 0, denominator = 1\<rparr>
      else if epoch = 2 then \<lparr>numerator = 10, denominator = 3\<rparr>
      else if epoch = 3 then \<lparr>numerator = 20, denominator = 3\<rparr>
      else unsetRatio)"

definition scenarioThirds :: "(64, 96) storage" where
  "scenarioThirds = scenarioLateGap\<lparr>currentEpoch := 4, rewardRatioSums := thirdsLedger\<rparr>"

text \<open>The scenario's records with one more member, B, holding a copy of A's record.\<close>

definition moreMembers :: "address \<Rightarrow> bytes32 \<Rightarrow> (64, 96) StoredStakeBalance" where
  "moreMembers member poolId =
     (if member = memberB then recordA else delegatedStakeToPoolByOwner scenario member poolId)"

section \<open>The specification's reading of the ledger and of the exact reward\<close>

text \<open>Carry-forward as the specification words it: an unset entry (denominator 0) stands
  for the nearest earlier entry that is set. Epoch 0 has no earlier entry.\<close>

fun nearestSetRatio :: "(uint256 \<Rightarrow> ND) \<Rightarrow> nat \<Rightarrow> ND" where
  "nearestSetRatio ledger 0 = ledger 0"
| "nearestSetRatio ledger (Suc n) =
     (if denominator (ledger (of_nat (Suc n))) \<noteq> 0 then ledger (of_nat (Suc n))
      else nearestSetRatio ledger n)"

definition carryForward :: "(uint256 \<Rightarrow> ND) \<Rightarrow> uint256 \<Rightarrow> ND" where
  "carryForward ledger epoch = nearestSetRatio ledger (unat epoch)"

text \<open>The computation of the contract, every lookup replaced by a carry-forward lookup.\<close>

definition computeUnsettledReward_carryForward ::
    "('e::len, 's::len, 'z) storage_scheme \<Rightarrow> bytes32 \<Rightarrow> address \<Rightarrow> error + uint256" where
  "computeUnsettledReward_carryForward s poolId member =
     computeRewardBalanceOfStakingPoolMember
       (s\<lparr>rewardRatioSums := carryForward (rewardRatioSums s)\<rparr>) poolId member"

text \<open>The exact reward: the same stake amounts and the same snapshots, in rational
  arithmetic, with no truncation and no wrap-around.\<close>

definition ratioValue :: "ND \<Rightarrow> rat" where
  "ratioValue r = of_int (uint (numerator r)) / of_int (uint (denominator r))"

definition exactLeg :: "uint256 \<Rightarrow> ND \<Rightarrow> ND \<Rightarrow> rat" where
  "exactLeg stake beginRatio endRatio =
     of_int (uint stake) * (ratioValue endRatio - ratioValue beginRatio)"

definition exactReward :: "('e::len, 's::len, 'z) storage_scheme \<Rightarrow> bytes32 \<Rightarrow> address \<Rightarrow> rat" where
  "exactReward s poolId member =
     (let delegatedStake = delegatedStakeToPoolByOwner s member poolId;
          ls = lastStored delegatedStake
      in if getCurrentEpoch s = 0 \<or> ls = getCurrentEpoch s then 0
         else (if current delegatedStake \<noteq> 0
               then exactLeg (ucast (current delegatedStake))
                      (rewardRatioSums s (ucast (ls - 1))) (rewardRatioSums s (ucast ls))
               else 0)
              + exactLeg (ucast (nextBalance delegatedStake))
                  (rewardRatioSums s (ucast ls)) (rewardRatioSums s (ucast (getCurrentEpoch s) - 1)))"

text \<open>The snapshots the computation reads are set: the begin snapshot of the \<open>current\<close>
  leg is read only when that leg is entered.\<close>

definition neededSnapshotsSet ::
    "('e::len, 's::len, 'z) storage_scheme \<Rightarrow> bytes32 \<Rightarrow> address \<Rightarrow> bool" where
  "neededSnapshotsSet s poolId member =
     (let delegatedStake = delegatedStakeToPoolByOwner s member poolId;
          ls = lastStored delegatedStake
      in (current delegatedStake \<noteq> 0 \<longrightarrow> denominator (rewardRatioSums s (ucast (ls - 1))) \<noteq> 0)
         \<and> denominator (rewardRatioSums s (ucast ls)) \<noteq> 0
         \<and> denominator (rewardRatioSums s (ucast (getCurrentEpoch s) - 1)) \<noteq> 0)"

text \<open>The ledger is cumulative over each leg that carries stake: the ratio at the end of
  the leg is at least the ratio at its beginning.\<close>

definition ratiosCumulative ::
    "('e::len, 's::len, 'z) storage_scheme \<Rightarrow> bytes32 \<Rightarrow> address \<Rightarrow> bool" where
  "ratiosCumulative s poolId member =
     (let delegatedStake = delegatedStakeToPoolByOwner s member poolId;
          ls = lastStored delegatedStake
      in (current delegatedStake \<noteq> 0
            \<longrightarrow> ratioValue (rewardRatioSums s (ucast (ls - 1)))
                \<le> ratioValue (rewardRatioSums s (ucast ls)))
         \<and> (nextBalance delegatedStake \<noteq> 0
            \<longrightarrow> ratioValue (rewardRatioSums s (ucast ls))
                \<le> ratioValue (rewardRatioSums s (ucast (getCurrentEpoch s) - 1))))"

section \<open>Basic facts about the operations\<close>

lemmas model_defs =
  computeRewardBalanceOfStakingPoolMember_def currentLeg_def nextLeg_def rewardRatio_def
  evm_div_def getCurrentEpoch_def

lemmas scenario_defs =
  scenario_def scenarioLedger_def recordA_def emptyRecord_def unsetRatio_def memberA_def
  memberB_def pool1_def

lemma rewardRatio_unset:
  "denominator b = 0 \<or> denominator e = 0 \<Longrightarrow> rewardRatio stake b e = Inl DivisionByZero"
  by (auto simp: rewardRatio_def evm_div_def)

lemma rewardRatio_set:
  assumes "denominator b \<noteq> 0" and "denominator e \<noteq> 0"
  shows "rewardRatio stake b e
         = Inr ((stake * ((numerator e * denominator b - numerator b * denominator e)
                          div denominator b)) div denominator e)"
  using assms by (simp add: rewardRatio_def evm_div_def)

lemma rewardRatio_cases:
  "rewardRatio stake b e = Inl DivisionByZero \<or> (\<exists>r. rewardRatio stake b e = Inr r)"
  by (auto simp: rewardRatio_def evm_div_def)

lemma currentLeg_cases:
  "currentLeg s ds = Inl DivisionByZero \<or> (\<exists>t. currentLeg s ds = Inr t)"
  using rewardRatio_cases [of "ucast (current ds)"
      "rewardRatioSums s (ucast (lastStored ds - 1))" "rewardRatioSums s (ucast (lastStored ds))"]
  by (auto simp: currentLeg_def Let_def)

lemma nextLeg_cases:
  "nextLeg s ds t = Inl DivisionByZero \<or> (\<exists>r. nextLeg s ds t = Inr r)"
  using rewardRatio_cases [of "ucast (nextBalance ds)"
      "rewardRatioSums s (ucast (lastStored ds))" "rewardRatioSums s (ucast (getCurrentEpoch s) - 1)"]
  by (auto simp: nextLeg_def Let_def)

lemma compute_cases:
  "computeRewardBalanceOfStakingPoolMember s poolId member = Inl DivisionByZero
   \<or> (\<exists>r. computeRewardBalanceOfStakingPoolMember s poolId member = Inr r)"
proof -
  let ?ds = "delegatedStakeToPoolByOwner s member poolId"
  show ?thesis
  proof (cases "currentLeg s ?ds")
    case (Inl e)
    with currentLeg_cases [of s ?ds] show ?thesis
      by (simp add: computeRewardBalanceOfStakingPoolMember_def Let_def)
  next
    case (Inr t)
    with nextLeg_cases [of s ?ds t] show ?thesis
      by (auto simp: computeRewardBalanceOfStakingPoolMember_def Let_def)
  qed
qed

lemma sync_cases:
  "syncRewardBalanceOfStakingPoolMember s poolId member = Inl DivisionByZero
   \<or> syncRewardBalanceOfStakingPoolMember s poolId member = Inl (RequireFailed ''eyo'')
   \<or> syncRewardBalanceOfStakingPoolMember s poolId member = Inl ExternalCallReverted
   \<or> (\<exists>s'. syncRewardBalanceOfStakingPoolMember s poolId member = Inr s')"
proof (cases "computeRewardBalanceOfStakingPoolMember s poolId member")
  case (Inl e)
  with compute_cases [of s poolId member] show ?thesis
    by (simp add: syncRewardBalanceOfStakingPoolMember_def)
next
  case (Inr balance)
  then show ?thesis
    by (cases "balance = 0"; cases "rewardVault s = 0";
        cases "vaultAccepts s (vaultTransfers s) poolId member balance")
       (simp_all add: syncRewardBalanceOfStakingPoolMember_def)
qed

text \<open>Whenever the computation goes past line 88 and a snapshot it reads is unset, it
  aborts.\<close>

lemma compute_aborts_on_unset:
  assumes "getCurrentEpoch s \<noteq> 0"
    and "lastStored (delegatedStakeToPoolByOwner s member poolId) \<noteq> getCurrentEpoch s"
    and "(current (delegatedStakeToPoolByOwner s member poolId) \<noteq> 0
          \<and> (denominator (rewardRatioSums s
                 (ucast (lastStored (delegatedStakeToPoolByOwner s member poolId) - 1))) = 0
               \<or> denominator (rewardRatioSums s
                    (ucast (lastStored (delegatedStakeToPoolByOwner s member poolId)))) = 0))
         \<or> denominator (rewardRatioSums s
              (ucast (lastStored (delegatedStakeToPoolByOwner s member poolId)))) = 0
         \<or> denominator (rewardRatioSums s (ucast (getCurrentEpoch s) - 1)) = 0"
  shows "computeRewardBalanceOfStakingPoolMember s poolId member = Inl DivisionByZero"
proof -
  let ?ds = "delegatedStakeToPoolByOwner s member poolId"
  have next_fails: "nextLeg s ?ds t = Inl DivisionByZero"
    if "denominator (rewardRatioSums s (ucast (lastStored ?ds))) = 0
        \<or> denominator (rewardRatioSums s (ucast (getCurrentEpoch s) - 1)) = 0" for t
    using that by (simp add: nextLeg_def Let_def rewardRatio_unset)
  have cur_fails: "currentLeg s ?ds = Inl DivisionByZero"
    if "current ?ds \<noteq> 0"
      "denominator (rewardRatioSums s (ucast (lastStored ?ds - 1))) = 0
       \<or> denominator (rewardRatioSums s (ucast (lastStored ?ds))) = 0"
    using that by (simp add: currentLeg_def Let_def rewardRatio_unset)
  have unfold: "computeRewardBalanceOfStakingPoolMember s poolId member =
      (case currentLeg s ?ds of Inl e \<Rightarrow> Inl e | Inr t \<Rightarrow> nextLeg s ?ds t)"
    using assms(1,2) by (simp add: computeRewardBalanceOfStakingPoolMember_def Let_def)
  show ?thesis
  proof (cases "currentLeg s ?ds")
    case (Inl e)
    with currentLeg_cases [of s ?ds] show ?thesis by (simp add: unfold)
  next
    case (Inr t)
    with cur_fails have "\<not> (current ?ds \<noteq> 0
          \<and> (denominator (rewardRatioSums s (ucast (lastStored ?ds - 1))) = 0
               \<or> denominator (rewardRatioSums s (ucast (lastStored ?ds))) = 0))"
      by auto
    with assms(3) have "denominator (rewardRatioSums s (ucast (lastStored ?ds))) = 0
        \<or> denominator (rewardRatioSums s (ucast (getCurrentEpoch s) - 1)) = 0"
      by blast
    from next_fails [OF this] Inr show ?thesis by (simp add: unfold)
  qed
qed

text \<open>The computation reads neither the log of vault calls nor any other member's record.\<close>

lemma currentLeg_ignores_transfers:
  "currentLeg (s\<lparr>vaultTransfers := ts\<rparr>) ds = currentLeg s ds"
  by (simp add: currentLeg_def)

lemma nextLeg_ignores_transfers:
  "nextLeg (s\<lparr>vaultTransfers := ts\<rparr>) ds t = nextLeg s ds t"
  by (simp add: nextLeg_def getCurrentEpoch_def)

lemma compute_ignores_transfers:
  "computeRewardBalanceOfStakingPoolMember (s\<lparr>vaultTransfers := ts\<rparr>) poolId member
   = computeRewardBalanceOfStakingPoolMember s poolId member"
  by (simp add: computeRewardBalanceOfStakingPoolMember_def currentLeg_ignores_transfers
      nextLeg_ignores_transfers getCurrentEpoch_def Let_def cong: sum.case_cong)

lemma currentLeg_other_members:
  "currentLeg (s\<lparr>delegatedStakeToPoolByOwner := d\<rparr>) ds = currentLeg s ds"
  by (simp add: currentLeg_def)

lemma nextLeg_other_members:
  "nextLeg (s\<lparr>delegatedStakeToPoolByOwner := d\<rparr>) ds t = nextLeg s ds t"
  by (simp add: nextLeg_def getCurrentEpoch_def)

lemma currentLeg_ledger:
  assumes "current ds \<noteq> 0
           \<longrightarrow> ledger (ucast (lastStored ds - 1)) = rewardRatioSums s (ucast (lastStored ds - 1))"
    and "ledger (ucast (lastStored ds)) = rewardRatioSums s (ucast (lastStored ds))"
  shows "currentLeg (s\<lparr>rewardRatioSums := ledger\<rparr>) ds = currentLeg s ds"
  using assms by (simp add: currentLeg_def)

lemma nextLeg_ledger:
  assumes "ledger (ucast (lastStored ds)) = rewardRatioSums s (ucast (lastStored ds))"
    and "ledger (ucast (getCurrentEpoch s) - 1) = rewardRatioSums s (ucast (getCurrentEpoch s) - 1)"
  shows "nextLeg (s\<lparr>rewardRatioSums := ledger\<rparr>) ds t = nextLeg s ds t"
  using assms by (simp add: nextLeg_def getCurrentEpoch_def)

lemma sync_pays:
  assumes "computeRewardBalanceOfStakingPoolMember s poolId member = Inr balance"
    and "balance \<noteq> 0" and "rewardVault s \<noteq> 0"
    and "vaultAccepts s (vaultTransfers s) poolId member balance"
  shows "syncRewardBalanceOfStakingPoolMember s poolId member
         = Inr (s\<lparr>vaultTransfers := vaultTransfers s @ [(poolId, member, balance)]\<rparr>)"
  using assms by (simp add: syncRewardBalanceOfStakingPoolMember_def)

section \<open>Evaluating the scenario\<close>

lemma scenario_fields:
  "currentEpoch scenario = 3" "rewardVault scenario = 77" "vaultTransfers scenario = []"
  "vaultAccepts scenario sofar poolId member amount"
  "delegatedStakeToPoolByOwner scenario memberA pool1 = recordA"
  "delegatedStakeToPoolByOwner scenario memberB pool1 = emptyRecord"
  "rewardRatioSums scenario = scenarioLedger"
  by (simp_all add: scenario_def memberA_def memberB_def)

lemma scenario_reward:
  "computeRewardBalanceOfStakingPoolMember scenario pool1 memberA = Inr 1000"
  by (simp add: model_defs scenario_defs)

lemma scenario_sync:
  "syncRewardBalanceOfStakingPoolMember scenario pool1 memberA = Inr scenarioPaid"
  using sync_pays [OF scenario_reward]
  by (simp add: scenario_fields scenarioPaid_def)

lemma scenarioPaid_reward:
  "computeRewardBalanceOfStakingPoolMember scenarioPaid pool1 memberA = Inr 1000"
  by (simp add: scenarioPaid_def compute_ignores_transfers scenario_reward)

lemma scenarioPaid_fields:
  "currentEpoch scenarioPaid = 3" "rewardVault scenarioPaid = 77"
  "vaultAccepts scenarioPaid sofar poolId member amount"
  "vaultTransfers scenarioPaid = [(pool1, memberA, 1000)]"
  "delegatedStakeToPoolByOwner scenarioPaid memberA pool1 = recordA"
  by (simp_all add: scenarioPaid_def scenario_fields)

lemma scenarioNoVault_reward:
  "computeRewardBalanceOfStakingPoolMember scenarioNoVault pool1 memberA = Inr 1000"
  by (simp add: model_defs scenario_defs scenarioNoVault_def)

lemma scenarioNoVault_sync:
  "syncRewardBalanceOfStakingPoolMember scenarioNoVault pool1 memberA
   = Inl (RequireFailed ''eyo'')"
  by (simp add: syncRewardBalanceOfStakingPoolMember_def scenarioNoVault_reward)
     (simp add: scenarioNoVault_def)

lemma scenarioVaultReverts_reward:
  "computeRewardBalanceOfStakingPoolMember scenarioVaultReverts pool1 memberA = Inr 1000"
  by (simp add: model_defs scenario_defs scenarioVaultReverts_def)

lemma scenarioVaultReverts_sync:
  "syncRewardBalanceOfStakingPoolMember scenarioVaultReverts pool1 memberA
   = Inl ExternalCallReverted"
  by (simp add: syncRewardBalanceOfStakingPoolMember_def scenarioVaultReverts_reward)
     (simp add: scenarioVaultReverts_def scenario_def)

lemma scenario_memberB_fails:
  "computeRewardBalanceOfStakingPoolMember scenario pool1 memberB = Inl DivisionByZero"
  by (simp add: model_defs scenario_defs)

lemma scenario_epoch1_reward:
  "computeRewardBalanceOfStakingPoolMember (scenario\<lparr>currentEpoch := 1\<rparr>) pool1 memberA = Inr 0"
  by (simp add: model_defs scenario_defs)

lemma scenarioGap_reward:
  "computeRewardBalanceOfStakingPoolMember scenarioGap pool1 memberA = Inl DivisionByZero"
  by (simp add: model_defs scenario_defs scenarioGap_def)

lemma carryForward_epoch1:
  "carryForward scenarioLedger 1 = \<lparr>numerator = 0, denominator = 1\<rparr>"
  by (simp add: carryForward_def scenarioLedger_def unsetRatio_def)

lemma carryForward_epoch3:
  "carryForward scenarioLedger 3 = \<lparr>numerator = 10, denominator = 1\<rparr>"
proof -
  have "unat (3 :: uint256) = 3" by simp
  then have "carryForward scenarioLedger 3 = nearestSetRatio scenarioLedger (Suc (Suc (Suc 0)))"
    by (simp only: carryForward_def numeral_3_eq_3)
  then show ?thesis by (simp add: scenarioLedger_def unsetRatio_def)
qed

lemma scenarioGap_carryForward:
  "computeUnsettledReward_carryForward scenarioGap pool1 memberA = Inr 1000"
  by (simp add: computeUnsettledReward_carryForward_def model_defs scenarioGap_def
      scenario_fields carryForward_epoch1 carryForward_epoch3 recordA_def)

lemma scenarioLateGap_fields:
  "getCurrentEpoch scenarioLateGap = 5"
  "delegatedStakeToPoolByOwner scenarioLateGap memberA pool1 = recordBoth"
  "rewardRatioSums scenarioLateGap = lateGapLedger"
  by (simp_all add: scenarioLateGap_def getCurrentEpoch_def)

lemma scenarioLateGap_reward:
  "computeRewardBalanceOfStakingPoolMember scenarioLateGap pool1 memberA = Inl DivisionByZero"
  by (simp add: model_defs scenarioLateGap_def lateGapLedger_def recordBoth_def unsetRatio_def)

lemma scenarioThirds_reward:
  "computeRewardBalanceOfStakingPoolMember scenarioThirds pool1 memberA = Inr 499"
  by (simp add: model_defs scenarioThirds_def scenarioLateGap_def thirdsLedger_def
      recordBoth_def unsetRatio_def)

lemma scenarioThirds_exact: "exactReward scenarioThirds pool1 memberA = 500"
  by (simp add: exactReward_def exactLeg_def ratioValue_def getCurrentEpoch_def
      scenarioThirds_def scenarioLateGap_def thirdsLedger_def recordBoth_def unsetRatio_def)

section \<open>The steps of the operations\<close>

text \<open>The functions written with their steps compute what the plain ones compute.\<close>

lemma computeRewardBalanceSteps_result:
  "snd (computeRewardBalanceSteps s poolId member)
   = computeRewardBalanceOfStakingPoolMember s poolId member"
proof -
  let ?ds = "delegatedStakeToPoolByOwner s member poolId"
  have leg1: "snd (if current ?ds \<noteq> 0
                   then rewardRatioSteps s (ucast (current ?ds))
                          (ucast (lastStored ?ds - 1)) (ucast (lastStored ?ds))
                   else ([], Inr 0))
              = currentLeg s ?ds"
    by (cases "rewardRatio (ucast (current ?ds))
                 (rewardRatioSums s (ucast (lastStored ?ds - 1)))
                 (rewardRatioSums s (ucast (lastStored ?ds)))")
       (simp_all add: currentLeg_def rewardRatioSteps_def)
  have leg2: "(case snd (rewardRatioSteps s (ucast (nextBalance ?ds)) (ucast (lastStored ?ds))
                            (ucast (getCurrentEpoch s) - 1)) of
                 Inl e \<Rightarrow> Inl e | Inr r \<Rightarrow> Inr (t + r))
              = nextLeg s ?ds t" for t
    by (simp add: nextLeg_def rewardRatioSteps_def)
  show ?thesis
    by (cases "currentLeg s ?ds")
       (simp_all add: computeRewardBalanceSteps_def computeRewardBalanceOfStakingPoolMember_def
          Let_def leg1 leg2)
qed

lemma syncRewardBalanceSteps_result:
  "snd (syncRewardBalanceSteps s poolId member)
   = syncRewardBalanceOfStakingPoolMember s poolId member"
  by (cases "computeRewardBalanceOfStakingPoolMember s poolId member")
     (simp_all add: syncRewardBalanceSteps_def syncRewardBalanceOfStakingPoolMember_def
        computeRewardBalanceSteps_result Let_def)

lemma computeRewardBalanceSteps_shape:
  "length (fst (computeRewardBalanceSteps s poolId member)) \<le> 8
   \<and> (\<forall>m p. ReadStake m p \<in> set (fst (computeRewardBalanceSteps s poolId member))
            \<longrightarrow> m = member \<and> p = poolId)
   \<and> (\<forall>p m a. CallVault p m a \<notin> set (fst (computeRewardBalanceSteps s poolId member)))"
proof -
  let ?ds = "delegatedStakeToPoolByOwner s member poolId"
  show ?thesis
    by (cases "currentLeg s ?ds")
       (auto simp: computeRewardBalanceSteps_def computeRewardBalanceSteps_result Let_def
          rewardRatioSteps_def split: sum.splits)
qed

lemma syncRewardBalanceSteps_shape:
  "length (fst (syncRewardBalanceSteps s poolId member)) \<le> 11
   \<and> (\<forall>m p. ReadStake m p \<in> set (fst (syncRewardBalanceSteps s poolId member))
            \<longrightarrow> m = member \<and> p = poolId)"
proof -
  let ?c = "computeRewardBalanceSteps s poolId member"
  have len: "length (fst ?c) \<le> 8"
    and own: "\<And>m p. ReadStake m p \<in> set (fst ?c) \<Longrightarrow> m = member \<and> p = poolId"
    using computeRewardBalanceSteps_shape [of s poolId member] by blast+
  show ?thesis
  proof (cases "snd ?c")
    case (Inl e)
    with len own show ?thesis by (auto simp: syncRewardBalanceSteps_def Let_def)
  next
    case (Inr balance)
    with len own show ?thesis
      by (cases "balance = 0"; cases "rewardVault s = 0";
          cases "vaultAccepts s (vaultTransfers s) poolId member balance")
         (auto simp: syncRewardBalanceSteps_def Let_def)
  qed
qed

lemma computeRewardBalanceSteps_other_members:
  assumes "delegations member poolId = delegatedStakeToPoolByOwner s member poolId"
  shows "computeRewardBalanceSteps (s\<lparr>delegatedStakeToPoolByOwner := delegations\<rparr>) poolId member
         = computeRewardBalanceSteps s poolId member"
proof -
  have leg: "rewardRatioSteps (s\<lparr>delegatedStakeToPoolByOwner := delegations\<rparr>) stake b e
             = rewardRatioSteps s stake b e" for stake b e
    by (simp add: rewardRatioSteps_def)
  show ?thesis
    using assms
    by (simp add: computeRewardBalanceSteps_def leg getCurrentEpoch_def Let_def
        cong: sum.case_cong)
qed

lemma scenario_sync_steps:
  "fst (syncRewardBalanceSteps scenario pool1 memberA)
   = [ReadStake memberA pool1, ReadEpoch, ReadEpoch, ReadEpoch, ReadRatio 1, ReadRatio 2,
      ReadVault, ReadVault, CallVault pool1 memberA 1000]"
  by (simp add: syncRewardBalanceSteps_def computeRewardBalanceSteps_def rewardRatioSteps_def
      rewardRatio_def evm_div_def getCurrentEpoch_def Let_def scenario_defs)

section \<open>Nothing to interpolate\<close>

text \<open>
  C6. If the current epoch is 0, or the member's record has \<open>lastStored\<close> equal to the
  current epoch, \<open>computeRewardBalanceOfStakingPoolMember\<close> returns 0.
\<close>

theorem compute_zero_when_nothing_unsettled:
  assumes "getCurrentEpoch s = 0
           \<or> lastStored (delegatedStakeToPoolByOwner s member poolId) = getCurrentEpoch s"
  shows "computeRewardBalanceOfStakingPoolMember s poolId member = Inr 0"
  using assms by (simp add: computeRewardBalanceOfStakingPoolMember_def)

text \<open>Both cases at concrete states: the scenario with the clock at epoch 0, and with the
  clock at epoch 1, the epoch of A's record.\<close>

theorem compute_zero_when_nothing_unsettled_witness:
  "(getCurrentEpoch (scenario\<lparr>currentEpoch := 0\<rparr>) = 0
    \<and> computeRewardBalanceOfStakingPoolMember (scenario\<lparr>currentEpoch := 0\<rparr>) pool1 memberA = Inr 0)
   \<and> (lastStored (delegatedStakeToPoolByOwner (scenario\<lparr>currentEpoch := 1\<rparr>) memberA pool1)
        = getCurrentEpoch (scenario\<lparr>currentEpoch := 1\<rparr>)
      \<and> computeRewardBalanceOfStakingPoolMember (scenario\<lparr>currentEpoch := 1\<rparr>) pool1 memberA = Inr 0)"
  using compute_zero_when_nothing_unsettled [of "scenario\<lparr>currentEpoch := 0\<rparr>" memberA pool1]
    compute_zero_when_nothing_unsettled [of "scenario\<lparr>currentEpoch := 1\<rparr>" memberA pool1]
  by (simp add: getCurrentEpoch_def scenario_defs)

section \<open>Unset snapshots\<close>

text \<open>
  C8. When the current epoch is not 0 and differs from \<open>lastStored\<close>, the \<open>next\<close> leg is
  evaluated whatever the member's next stake amount is, 0 included. So whenever a snapshot
  the function reads is unset (denominator 0), the call aborts on a division by zero; it
  returns neither 0 nor any other number. The snapshots read are those of \<open>lastStored\<close> and
  of \<open>currentEpoch - 1\<close>, and, when \<open>current\<close> is not 0, that of \<open>lastStored - 1\<close> too.
\<close>

theorem unset_snapshot_aborts:
  assumes "getCurrentEpoch s \<noteq> 0"
    and "lastStored (delegatedStakeToPoolByOwner s member poolId) \<noteq> getCurrentEpoch s"
    and "(current (delegatedStakeToPoolByOwner s member poolId) \<noteq> 0
          \<and> (denominator (rewardRatioSums s
                 (ucast (lastStored (delegatedStakeToPoolByOwner s member poolId) - 1))) = 0
               \<or> denominator (rewardRatioSums s
                    (ucast (lastStored (delegatedStakeToPoolByOwner s member poolId)))) = 0))
         \<or> denominator (rewardRatioSums s
              (ucast (lastStored (delegatedStakeToPoolByOwner s member poolId)))) = 0
         \<or> denominator (rewardRatioSums s (ucast (getCurrentEpoch s) - 1)) = 0"
  shows "computeRewardBalanceOfStakingPoolMember s poolId member = Inl DivisionByZero"
  using assms by (rule compute_aborts_on_unset)

text \<open>In the scenario, B's record is all zero (next stake amount 0 included) and the ledger
  has no entry for epoch 0, B's \<open>lastStored\<close>: the call for B aborts.\<close>

theorem unset_snapshot_aborts_witness:
  "getCurrentEpoch scenario \<noteq> 0
   \<and> lastStored (delegatedStakeToPoolByOwner scenario memberB pool1) \<noteq> getCurrentEpoch scenario
   \<and> nextBalance (delegatedStakeToPoolByOwner scenario memberB pool1) = 0
   \<and> denominator (rewardRatioSums scenario
        (ucast (lastStored (delegatedStakeToPoolByOwner scenario memberB pool1)))) = 0
   \<and> computeRewardBalanceOfStakingPoolMember scenario pool1 memberB = Inl DivisionByZero"
  using unset_snapshot_aborts [of scenario memberB pool1]
  by (simp add: getCurrentEpoch_def scenario_fields emptyRecord_def scenarioLedger_def
      unsetRatio_def)

text \<open>
  C4 (as amended). A lookup on an epoch without a snapshot reads the entry stored for that
  very epoch, which is 0/0. No earlier, set ratio is carried forward: the result depends on
  the ledger only at \<open>lastStored\<close>, at \<open>currentEpoch - 1\<close> and, when \<open>current\<close> is not 0, at
  \<open>lastStored - 1\<close>. No zero ratio is put in its place either: whenever the computation
  goes past its first check and one of the entries it reads is unset, it aborts on a
  division by zero and returns no number.
\<close>

theorem lookup_reads_stored_entry:
  assumes "current (delegatedStakeToPoolByOwner s member poolId) \<noteq> 0
           \<longrightarrow> ledger (ucast (lastStored (delegatedStakeToPoolByOwner s member poolId) - 1))
               = rewardRatioSums s
                   (ucast (lastStored (delegatedStakeToPoolByOwner s member poolId) - 1))"
    and "ledger (ucast (lastStored (delegatedStakeToPoolByOwner s member poolId)))
         = rewardRatioSums s (ucast (lastStored (delegatedStakeToPoolByOwner s member poolId)))"
    and "ledger (ucast (getCurrentEpoch s) - 1) = rewardRatioSums s (ucast (getCurrentEpoch s) - 1)"
  shows "computeRewardBalanceOfStakingPoolMember (s\<lparr>rewardRatioSums := ledger\<rparr>) poolId member
         = computeRewardBalanceOfStakingPoolMember s poolId member
     \<and> (getCurrentEpoch s \<noteq> 0
          \<and> lastStored (delegatedStakeToPoolByOwner s member poolId) \<noteq> getCurrentEpoch s
          \<and> ((current (delegatedStakeToPoolByOwner s member poolId) \<noteq> 0
                \<and> (denominator (rewardRatioSums s
                       (ucast (lastStored (delegatedStakeToPoolByOwner s member poolId) - 1))) = 0
                     \<or> denominator (rewardRatioSums s
                          (ucast (lastStored (delegatedStakeToPoolByOwner s member poolId)))) = 0))
               \<or> denominator (rewardRatioSums s
                    (ucast (lastStored (delegatedStakeToPoolByOwner s member poolId)))) = 0
               \<or> denominator (rewardRatioSums s (ucast (getCurrentEpoch s) - 1)) = 0)
          \<longrightarrow> computeRewardBalanceOfStakingPoolMember s poolId member = Inl DivisionByZero)"
proof -
  have e: "getCurrentEpoch (s\<lparr>rewardRatioSums := ledger\<rparr>) = getCurrentEpoch s"
    by (simp add: getCurrentEpoch_def)
  have "computeRewardBalanceOfStakingPoolMember (s\<lparr>rewardRatioSums := ledger\<rparr>) poolId member
         = computeRewardBalanceOfStakingPoolMember s poolId member"
    using currentLeg_ledger [OF assms(1,2)] nextLeg_ledger [OF assms(2,3)]
    by (simp add: computeRewardBalanceOfStakingPoolMember_def e Let_def cong: sum.case_cong)
  then show ?thesis using compute_aborts_on_unset [of s member poolId] by blast
qed

text \<open>In the longer history the legs of A read epochs 1 and 2, then 2 and 4. Epoch 4 is
  unset and epoch 3 holds the last ratio set before it: replacing the entry of epoch 3
  changes nothing, and the computation aborts on the unset entry of epoch 4.\<close>

theorem lookup_reads_stored_entry_witness:
  "current (delegatedStakeToPoolByOwner scenarioLateGap memberA pool1) \<noteq> 0
   \<and> otherLedger (ucast (lastStored (delegatedStakeToPoolByOwner scenarioLateGap memberA pool1) - 1))
       = rewardRatioSums scenarioLateGap
           (ucast (lastStored (delegatedStakeToPoolByOwner scenarioLateGap memberA pool1) - 1))
   \<and> otherLedger (ucast (lastStored (delegatedStakeToPoolByOwner scenarioLateGap memberA pool1)))
       = rewardRatioSums scenarioLateGap
           (ucast (lastStored (delegatedStakeToPoolByOwner scenarioLateGap memberA pool1)))
   \<and> otherLedger (ucast (getCurrentEpoch scenarioLateGap) - 1)
       = rewardRatioSums scenarioLateGap (ucast (getCurrentEpoch scenarioLateGap) - 1)
   \<and> otherLedger 3 \<noteq> rewardRatioSums scenarioLateGap 3
   \<and> computeRewardBalanceOfStakingPoolMember (scenarioLateGap\<lparr>rewardRatioSums := otherLedger\<rparr>)
         pool1 memberA
       = computeRewardBalanceOfStakingPoolMember scenarioLateGap pool1 memberA
   \<and> getCurrentEpoch scenarioLateGap \<noteq> 0
   \<and> lastStored (delegatedStakeToPoolByOwner scenarioLateGap memberA pool1)
       \<noteq> getCurrentEpoch scenarioLateGap
   \<and> denominator (rewardRatioSums scenarioLateGap 3) \<noteq> 0
   \<and> denominator (rewardRatioSums scenarioLateGap (ucast (getCurrentEpoch scenarioLateGap) - 1)) = 0
   \<and> computeRewardBalanceOfStakingPoolMember scenarioLateGap pool1 memberA = Inl DivisionByZero"
proof -
  note f = scenarioLateGap_fields
  have 0: "current (delegatedStakeToPoolByOwner scenarioLateGap memberA pool1) \<noteq> 0"
    by (simp add: f recordBoth_def)
  have 1: "otherLedger (ucast (lastStored (delegatedStakeToPoolByOwner scenarioLateGap memberA pool1) - 1))
       = rewardRatioSums scenarioLateGap
           (ucast (lastStored (delegatedStakeToPoolByOwner scenarioLateGap memberA pool1) - 1))"
    by (simp add: f recordBoth_def otherLedger_def)
  have 2: "otherLedger (ucast (lastStored (delegatedStakeToPoolByOwner scenarioLateGap memberA pool1)))
       = rewardRatioSums scenarioLateGap
           (ucast (lastStored (delegatedStakeToPoolByOwner scenarioLateGap memberA pool1)))"
    by (simp add: f recordBoth_def otherLedger_def)
  have 3: "otherLedger (ucast (getCurrentEpoch scenarioLateGap) - 1)
       = rewardRatioSums scenarioLateGap (ucast (getCurrentEpoch scenarioLateGap) - 1)"
    by (simp add: f otherLedger_def)
  have 4: "otherLedger 3 \<noteq> rewardRatioSums scenarioLateGap 3"
    by (simp add: f otherLedger_def lateGapLedger_def)
  have 5: "getCurrentEpoch scenarioLateGap \<noteq> 0"
    "lastStored (delegatedStakeToPoolByOwner scenarioLateGap memberA pool1)
       \<noteq> getCurrentEpoch scenarioLateGap"
    by (simp_all add: f recordBoth_def)
  have 6: "denominator (rewardRatioSums scenarioLateGap 3) \<noteq> 0"
    "denominator (rewardRatioSums scenarioLateGap (ucast (getCurrentEpoch scenarioLateGap) - 1)) = 0"
    by (simp_all add: f lateGapLedger_def unsetRatio_def)
  from lookup_reads_stored_entry [of scenarioLateGap memberA pool1 otherLedger, OF _ 2 3] 1 5 6
  have "computeRewardBalanceOfStakingPoolMember (scenarioLateGap\<lparr>rewardRatioSums := otherLedger\<rparr>)
         pool1 memberA
       = computeRewardBalanceOfStakingPoolMember scenarioLateGap pool1 memberA"
    and "computeRewardBalanceOfStakingPoolMember scenarioLateGap pool1 memberA = Inl DivisionByZero"
    by blast+
  with 0 1 2 3 4 5 6 show ?thesis by blast
qed

text \<open>Where the specification's carry-forward and the contract part: at epoch 4 the entry
  of epoch 3 is unset, carry-forward would read 10/1 there and give 1000, and the contract
  aborts.\<close>

theorem carry_forward_counterexample:
  "rewardRatioSums scenarioGap 3 = unsetRatio
   \<and> carryForward (rewardRatioSums scenarioGap) 3 = \<lparr>numerator = 10, denominator = 1\<rparr>
   \<and> computeUnsettledReward_carryForward scenarioGap pool1 memberA = Inr 1000
   \<and> computeRewardBalanceOfStakingPoolMember scenarioGap pool1 memberA = Inl DivisionByZero"
proof -
  have f: "rewardRatioSums scenarioGap = scenarioLedger"
    by (simp add: scenarioGap_def scenario_fields)
  have "scenarioLedger 3 = unsetRatio" by (simp add: scenarioLedger_def)
  then show ?thesis
    by (simp add: f carryForward_epoch3 scenarioGap_carryForward scenarioGap_reward)
qed

section \<open>Settlement\<close>

text \<open>
  C9. \<open>syncRewardBalanceOfStakingPoolMember\<close> leaves the accounting state as it was: the
  stake records, the ratio ledger, the epoch, the vault address and all the rest of the
  storage are the same after the call as before. Its only effect is the call to the vault,
  made when the computed reward is not 0.
\<close>

theorem sync_frame:
  assumes "syncRewardBalanceOfStakingPoolMember s poolId member = Inr s'"
  shows "delegatedStakeToPoolByOwner s' = delegatedStakeToPoolByOwner s
     \<and> rewardRatioSums s' = rewardRatioSums s
     \<and> currentEpoch s' = currentEpoch s
     \<and> rewardVault s' = rewardVault s
     \<and> vaultAccepts s' = vaultAccepts s
     \<and> storage.more s' = storage.more s
     \<and> (\<exists>balance. computeRewardBalanceOfStakingPoolMember s poolId member = Inr balance
          \<and> vaultTransfers s'
              = vaultTransfers s @ (if balance = 0 then [] else [(poolId, member, balance)]))"
proof -
  from assms obtain balance
    where b: "computeRewardBalanceOfStakingPoolMember s poolId member = Inr balance"
    by (cases "computeRewardBalanceOfStakingPoolMember s poolId member")
       (simp_all add: syncRewardBalanceOfStakingPoolMember_def)
  have "s' = (if balance = 0 then s
              else s\<lparr>vaultTransfers := vaultTransfers s @ [(poolId, member, balance)]\<rparr>)"
    using assms b
    by (cases "balance = 0"; cases "rewardVault s = 0";
        cases "vaultAccepts s (vaultTransfers s) poolId member balance")
       (simp_all add: syncRewardBalanceOfStakingPoolMember_def)
  then have "delegatedStakeToPoolByOwner s' = delegatedStakeToPoolByOwner s"
    and "rewardRatioSums s' = rewardRatioSums s"
    and "currentEpoch s' = currentEpoch s"
    and "rewardVault s' = rewardVault s"
    and "vaultAccepts s' = vaultAccepts s"
    and "storage.more s' = storage.more s"
    and "vaultTransfers s'
         = vaultTransfers s @ (if balance = 0 then [] else [(poolId, member, balance)])"
    by simp_all
  with b show ?thesis by blast
qed

theorem sync_frame_witness:
  "syncRewardBalanceOfStakingPoolMember scenario pool1 memberA = Inr scenarioPaid
   \<and> delegatedStakeToPoolByOwner scenarioPaid = delegatedStakeToPoolByOwner scenario
   \<and> rewardRatioSums scenarioPaid = rewardRatioSums scenario
   \<and> currentEpoch scenarioPaid = currentEpoch scenario
   \<and> rewardVault scenarioPaid = rewardVault scenario
   \<and> vaultAccepts scenarioPaid = vaultAccepts scenario
   \<and> storage.more scenarioPaid = storage.more scenario
   \<and> computeRewardBalanceOfStakingPoolMember scenario pool1 memberA = Inr 1000
   \<and> vaultTransfers scenarioPaid = vaultTransfers scenario @ [(pool1, memberA, 1000)]"
proof -
  have v: "vaultTransfers scenarioPaid = vaultTransfers scenario @ [(pool1, memberA, 1000)]"
    by (simp add: scenarioPaid_fields scenario_fields)
  from sync_frame [OF scenario_sync]
  have "delegatedStakeToPoolByOwner scenarioPaid = delegatedStakeToPoolByOwner scenario"
    and "rewardRatioSums scenarioPaid = rewardRatioSums scenario"
    and "currentEpoch scenarioPaid = currentEpoch scenario"
    and "rewardVault scenarioPaid = rewardVault scenario"
    and "vaultAccepts scenarioPaid = vaultAccepts scenario"
    and "storage.more scenarioPaid = storage.more scenario"
    by blast+
  with scenario_sync scenario_reward v show ?thesis by blast
qed

text \<open>
  C2 (as amended). When the computed reward is 0 the call returns with no effect. When it
  is not 0, a reward vault is configured and the vault carries out the call, exactly one
  transfer is made, of exactly that amount, for \<open>(poolId, member)\<close>. When it is not 0 and
  the vault does not carry out the call, or no vault is configured (the \<open>require\<close>), or
  the computation aborts, the call fails, and a failed call has no effect. Nothing is
  stated about the member's record.
\<close>

theorem sync_effects:
  "(computeRewardBalanceOfStakingPoolMember s poolId member = Inr 0
      \<longrightarrow> syncRewardBalanceOfStakingPoolMember s poolId member = Inr s)
   \<and> (computeRewardBalanceOfStakingPoolMember s poolId member = Inr balance \<and> balance \<noteq> 0
        \<and> rewardVault s \<noteq> 0 \<and> vaultAccepts s (vaultTransfers s) poolId member balance
      \<longrightarrow> (\<exists>s'. syncRewardBalanceOfStakingPoolMember s poolId member = Inr s'
             \<and> vaultTransfers s' = vaultTransfers s @ [(poolId, member, balance)]))
   \<and> (computeRewardBalanceOfStakingPoolMember s poolId member = Inr balance \<and> balance \<noteq> 0
        \<and> rewardVault s \<noteq> 0 \<and> \<not> vaultAccepts s (vaultTransfers s) poolId member balance
      \<longrightarrow> syncRewardBalanceOfStakingPoolMember s poolId member = Inl ExternalCallReverted)
   \<and> (computeRewardBalanceOfStakingPoolMember s poolId member = Inr balance \<and> balance \<noteq> 0
        \<and> rewardVault s = 0
      \<longrightarrow> syncRewardBalanceOfStakingPoolMember s poolId member = Inl (RequireFailed ''eyo''))
   \<and> (computeRewardBalanceOfStakingPoolMember s poolId member = Inl e
      \<longrightarrow> syncRewardBalanceOfStakingPoolMember s poolId member = Inl e)"
  by (simp add: syncRewardBalanceOfStakingPoolMember_def)

text \<open>The five cases: A with the clock at epoch 1, A in the scenario, A with a vault that
  reverts, A with no vault configured, and B, whose computation aborts.\<close>

theorem sync_effects_witness:
  "(computeRewardBalanceOfStakingPoolMember (scenario\<lparr>currentEpoch := 1\<rparr>) pool1 memberA = Inr 0
     \<and> syncRewardBalanceOfStakingPoolMember (scenario\<lparr>currentEpoch := 1\<rparr>) pool1 memberA
         = Inr (scenario\<lparr>currentEpoch := 1\<rparr>))
   \<and> (computeRewardBalanceOfStakingPoolMember scenario pool1 memberA = Inr 1000
        \<and> (1000 :: uint256) \<noteq> 0 \<and> rewardVault scenario \<noteq> 0
        \<and> vaultAccepts scenario (vaultTransfers scenario) pool1 memberA 1000
        \<and> (\<exists>s'. syncRewardBalanceOfStakingPoolMember scenario pool1 memberA = Inr s'
             \<and> vaultTransfers s' = vaultTransfers scenario @ [(pool1, memberA, 1000)]))
   \<and> (computeRewardBalanceOfStakingPoolMember scenarioVaultReverts pool1 memberA = Inr 1000
        \<and> rewardVault scenarioVaultReverts \<noteq> 0
        \<and> \<not> vaultAccepts scenarioVaultReverts (vaultTransfers scenarioVaultReverts)
              pool1 memberA 1000
        \<and> syncRewardBalanceOfStakingPoolMember scenarioVaultReverts pool1 memberA
            = Inl ExternalCallReverted)
   \<and> (computeRewardBalanceOfStakingPoolMember scenarioNoVault pool1 memberA = Inr 1000
        \<and> rewardVault scenarioNoVault = 0
        \<and> syncRewardBalanceOfStakingPoolMember scenarioNoVault pool1 memberA
            = Inl (RequireFailed ''eyo''))
   \<and> (computeRewardBalanceOfStakingPoolMember scenario pool1 memberB = Inl DivisionByZero
        \<and> syncRewardBalanceOfStakingPoolMember scenario pool1 memberB = Inl DivisionByZero)"
proof -
  note z = scenario_epoch1_reward and b = scenario_memberB_fails
  have v: "rewardVault scenario \<noteq> 0" "rewardVault scenarioNoVault = 0"
    "rewardVault scenarioVaultReverts \<noteq> 0"
    by (simp_all add: scenario_def scenarioNoVault_def scenarioVaultReverts_def)
  have a: "vaultAccepts scenario (vaultTransfers scenario) pool1 memberA 1000"
    "\<not> vaultAccepts scenarioVaultReverts (vaultTransfers scenarioVaultReverts) pool1 memberA 1000"
    by (simp_all add: scenario_def scenarioVaultReverts_def)
  have n: "(1000 :: uint256) \<noteq> 0" by simp
  from sync_effects [of "scenario\<lparr>currentEpoch := 1\<rparr>" pool1 memberA 0 DivisionByZero] z
  have 1: "syncRewardBalanceOfStakingPoolMember (scenario\<lparr>currentEpoch := 1\<rparr>) pool1 memberA
         = Inr (scenario\<lparr>currentEpoch := 1\<rparr>)" by blast
  from sync_effects [of scenario pool1 memberA 1000 DivisionByZero] scenario_reward v(1) a(1) n
  have 2: "\<exists>s'. syncRewardBalanceOfStakingPoolMember scenario pool1 memberA = Inr s'
             \<and> vaultTransfers s' = vaultTransfers scenario @ [(pool1, memberA, 1000)]" by blast
  from sync_effects [of scenarioVaultReverts pool1 memberA 1000 DivisionByZero]
    scenarioVaultReverts_reward v(3) a(2) n
  have 3: "syncRewardBalanceOfStakingPoolMember scenarioVaultReverts pool1 memberA
           = Inl ExternalCallReverted"
    by blast
  from sync_effects [of scenarioNoVault pool1 memberA 1000 DivisionByZero]
    scenarioNoVault_reward v(2) n
  have 4: "syncRewardBalanceOfStakingPoolMember scenarioNoVault pool1 memberA
           = Inl (RequireFailed ''eyo'')"
    by blast
  from sync_effects [of scenario pool1 memberB 0 DivisionByZero] b
  have 5: "syncRewardBalanceOfStakingPoolMember scenario pool1 memberB = Inl DivisionByZero"
    by blast
  from z 1 scenario_reward n v a 2 scenarioVaultReverts_reward 3 scenarioNoVault_reward 4 b 5
  show ?thesis by blast
qed

text \<open>Three states where the nonzero case does not go as the specification has it. With no
  vault configured, and with a vault that reverts, the reward is 1000 and nothing is
  transferred: the call fails. In the scenario the transfer is made, and afterwards A's
  record still has \<open>lastStored = 1\<close> at epoch 3 and \<open>current = 0\<close> where \<open>next\<close> is 100.\<close>

theorem sync_nonzero_counterexample:
  "computeRewardBalanceOfStakingPoolMember scenarioNoVault pool1 memberA = Inr 1000
   \<and> syncRewardBalanceOfStakingPoolMember scenarioNoVault pool1 memberA
       = Inl (RequireFailed ''eyo'')
   \<and> computeRewardBalanceOfStakingPoolMember scenarioVaultReverts pool1 memberA = Inr 1000
   \<and> syncRewardBalanceOfStakingPoolMember scenarioVaultReverts pool1 memberA
       = Inl ExternalCallReverted
   \<and> computeRewardBalanceOfStakingPoolMember scenario pool1 memberA = Inr 1000
   \<and> syncRewardBalanceOfStakingPoolMember scenario pool1 memberA = Inr scenarioPaid
   \<and> getCurrentEpoch scenarioPaid = 3
   \<and> lastStored (delegatedStakeToPoolByOwner scenarioPaid memberA pool1) = 1
   \<and> current (delegatedStakeToPoolByOwner scenarioPaid memberA pool1) = 0
   \<and> nextBalance (delegatedStakeToPoolByOwner scenario memberA pool1) = 100"
  by (simp add: scenarioNoVault_reward scenarioNoVault_sync scenarioVaultReverts_reward
      scenarioVaultReverts_sync scenario_sync scenario_reward
      getCurrentEpoch_def scenarioPaid_fields scenario_fields recordA_def)

text \<open>
  C3. After one settlement, a second one with no stake change and no epoch advance should
  compute a reward of 0. In the scenario the contract computes 1000 again after A's first
  settlement, and the second settlement, the vault carrying it out, transfers 1000 a
  second time.
\<close>

theorem second_settlement_pays_again:
  "syncRewardBalanceOfStakingPoolMember scenario pool1 memberA = Inr scenarioPaid
   \<and> computeRewardBalanceOfStakingPoolMember scenarioPaid pool1 memberA = Inr 1000
   \<and> (\<exists>s'. syncRewardBalanceOfStakingPoolMember scenarioPaid pool1 memberA = Inr s'
         \<and> vaultTransfers s' = [(pool1, memberA, 1000), (pool1, memberA, 1000)])"
  using sync_pays [OF scenarioPaid_reward]
  by (simp add: scenario_sync scenarioPaid_reward scenarioPaid_fields)

text \<open>
  C5. The scenario: A delegated 100 units at epoch 1, the ratio is 0 at epoch 1 and 10/1 at
  epoch 2, and A settles at epoch 3. The contract pays out exactly 1000, as the
  specification expects, but A's \<open>lastStored\<close> is still 1 afterwards, not 3.
\<close>

theorem scenario_settlement:
  "computeRewardBalanceOfStakingPoolMember scenario pool1 memberA = Inr 1000
   \<and> syncRewardBalanceOfStakingPoolMember scenario pool1 memberA = Inr scenarioPaid
   \<and> vaultTransfers scenarioPaid = [(pool1, memberA, 1000)]
   \<and> getCurrentEpoch scenarioPaid = 3
   \<and> lastStored (delegatedStakeToPoolByOwner scenarioPaid memberA pool1) = 1"
  by (simp add: scenario_sync scenario_reward scenarioPaid_fields getCurrentEpoch_def
      recordA_def)

section \<open>Truncation\<close>

lemma rat_of_int_div_le:
  assumes "0 < b"
  shows "(of_int (a div b) :: rat) \<le> of_int a / of_int b"
proof -
  have "0 \<le> a mod b" using assms by simp
  moreover have "a div b * b + a mod b = a" by simp
  ultimately have "a div b * b \<le> a" by linarith
  then have "(of_int (a div b * b) :: rat) \<le> of_int a"
    by (simp only: of_int_le_iff)
  then have "(of_int (a div b) :: rat) * of_int b \<le> of_int a"
    by simp
  then show ?thesis using assms by (simp add: pos_le_divide_eq)
qed

lemma uint_add_le: "uint (a + b :: uint256) \<le> uint a + uint b"
proof -
  have "uint (a + b) = (uint a + uint b) mod 2 ^ 256" by (simp add: uint_word_ariths)
  also have "\<dots> \<le> uint a + uint b" by (intro zmod_le_nonneg_dividend) simp
  finally show ?thesis .
qed

text \<open>One leg. The products of the cross-multiplication may wrap, but their difference is
  taken modulo \<open>2 ^ 256\<close> of a number that is not negative when the ratio grew, so the wrapped
  value is no larger than the exact one; the two divisions round down, and the product with
  the stake can only lose by wrapping.\<close>

lemma rewardRatio_le_exact:
  assumes set: "denominator b \<noteq> 0" "denominator e \<noteq> 0"
    and grow: "stake \<noteq> 0 \<longrightarrow> ratioValue b \<le> ratioValue e"
  shows "\<exists>r. rewardRatio stake b e = Inr r \<and> of_int (uint r) \<le> exactLeg stake b e"
proof (cases "stake = 0")
  case True
  then show ?thesis using set by (simp add: rewardRatio_set exactLeg_def)
next
  case False
  define bN bD eN eD st where "bN = uint (numerator b)" and "bD = uint (denominator b)"
    and "eN = uint (numerator e)" and "eD = uint (denominator e)" and "st = uint stake"
  define M :: int where "M = 2 ^ 256"
  define D where "D = eN * bD - bN * eD"
  define q where "q = (numerator e * denominator b - numerator b * denominator e) div denominator b"
  define r where "r = (stake * q) div denominator e"
  have pos: "0 < bD" "0 < eD" "0 \<le> st" "0 \<le> bN" "0 \<le> eN"
    using set by (simp_all add: bD_def eD_def st_def bN_def eN_def uint_0_iff order_less_le)
  have "ratioValue b \<le> ratioValue e" using grow False by simp
  then have "of_int bN / of_int bD \<le> (of_int eN / of_int eD :: rat)"
    by (simp add: ratioValue_def bN_def bD_def eN_def eD_def)
  then have "(of_int bN * of_int eD :: rat) \<le> of_int eN * of_int bD"
    using pos by (simp add: field_simps)
  then have "bN * eD \<le> eN * bD"
    by (metis of_int_le_iff of_int_mult)
  then have D0: "0 \<le> D" by (simp add: D_def)
  have "uint (numerator e * denominator b - numerator b * denominator e) = D mod M"
    by (simp add: uint_word_ariths D_def M_def bN_def bD_def eN_def eD_def mod_diff_eq)
  moreover have "D mod M \<le> D" using D0 by (rule zmod_le_nonneg_dividend)
  ultimately have N: "uint (numerator e * denominator b - numerator b * denominator e) \<le> D"
    by simp
  have q: "uint q \<le> D div bD"
    unfolding q_def uint_div bD_def [symmetric] using N pos by (simp add: zdiv_mono1)
  have q0: "0 \<le> uint q" by simp
  have "uint (stake * q) = (st * uint q) mod M"
    by (simp add: uint_word_ariths st_def M_def)
  also have "\<dots> \<le> st * uint q"
    using pos q0 by (intro zmod_le_nonneg_dividend) simp
  also have "\<dots> \<le> st * (D div bD)"
    using q pos by (simp add: mult_left_mono)
  finally have sq: "uint (stake * q) \<le> st * (D div bD)" .
  have "(of_int (uint r) :: rat) \<le> of_int (uint (stake * q)) / of_int eD"
    unfolding r_def uint_div eD_def [symmetric] using pos by (intro rat_of_int_div_le)
  also have "\<dots> \<le> of_int (st * (D div bD)) / of_int eD"
  proof (rule divide_right_mono)
    show "(of_int (uint (stake * q)) :: rat) \<le> of_int (st * (D div bD))"
      using sq by (simp only: of_int_le_iff)
    show "(0 :: rat) \<le> of_int eD" using pos by simp
  qed
  also have "\<dots> \<le> of_int st * (of_int D / of_int bD) / of_int eD"
  proof -
    have "(of_int (D div bD) :: rat) \<le> of_int D / of_int bD"
      using pos by (intro rat_of_int_div_le)
    then have "(of_int st :: rat) * of_int (D div bD) \<le> of_int st * (of_int D / of_int bD)"
      using pos by (intro mult_left_mono) simp_all
    then have "(of_int (st * (D div bD)) :: rat) \<le> of_int st * (of_int D / of_int bD)"
      by simp
    moreover have "(0 :: rat) \<le> of_int eD" using pos by simp
    ultimately show ?thesis by (rule divide_right_mono)
  qed
  also have "\<dots> = of_int st * (of_int eN / of_int eD - of_int bN / of_int bD)"
    using pos by (simp add: D_def field_simps)
  also have "\<dots> = exactLeg stake b e"
    by (simp add: exactLeg_def ratioValue_def bN_def bD_def eN_def eD_def st_def)
  finally have "(of_int (uint r) :: rat) \<le> exactLeg stake b e" .
  moreover have "rewardRatio stake b e = Inr r"
    using set by (simp add: rewardRatio_set r_def q_def)
  ultimately show ?thesis by blast
qed

text \<open>
  C7. In every state in which the cumulative-ratio snapshots the computation reads are
  set, cumulative meaning that over each leg that carries stake the ratio at the end is at
  least the ratio at the beginning, the computation returns a reward, and that reward,
  computed with truncating integer division in both legs, is at most the exact rational
  reward for the same stake amounts and snapshots: the member is never over-paid.
\<close>

theorem truncation_never_overpays:
  assumes set: "neededSnapshotsSet s poolId member"
    and grow: "ratiosCumulative s poolId member"
  shows "\<exists>r. computeRewardBalanceOfStakingPoolMember s poolId member = Inr r
             \<and> of_int (uint r) \<le> exactReward s poolId member"
proof (cases "getCurrentEpoch s = 0
              \<or> lastStored (delegatedStakeToPoolByOwner s member poolId) = getCurrentEpoch s")
  case True
  then show ?thesis
    by (simp add: computeRewardBalanceOfStakingPoolMember_def exactReward_def Let_def)
next
  case False
  let ?ds = "delegatedStakeToPoolByOwner s member poolId"
  let ?b1 = "rewardRatioSums s (ucast (lastStored ?ds - 1))"
  let ?m = "rewardRatioSums s (ucast (lastStored ?ds))"
  let ?e2 = "rewardRatioSums s (ucast (getCurrentEpoch s) - 1)"
  let ?x1 = "if current ?ds \<noteq> 0 then exactLeg (ucast (current ?ds)) ?b1 ?m else 0"
  from set have m: "denominator ?m \<noteq> 0" and e2: "denominator ?e2 \<noteq> 0"
    and b1: "current ?ds \<noteq> 0 \<longrightarrow> denominator ?b1 \<noteq> 0"
    by (simp_all add: neededSnapshotsSet_def Let_def)
  from grow have g1: "current ?ds \<noteq> 0 \<longrightarrow> ratioValue ?b1 \<le> ratioValue ?m"
    and g2: "nextBalance ?ds \<noteq> 0 \<longrightarrow> ratioValue ?m \<le> ratioValue ?e2"
    by (simp_all add: ratiosCumulative_def Let_def)
  have "\<exists>t. currentLeg s ?ds = Inr t \<and> of_int (uint t) \<le> ?x1"
  proof (cases "current ?ds = 0")
    case True
    then show ?thesis by (simp add: currentLeg_def)
  next
    case nz: False
    with b1 g1 m have "\<exists>r. rewardRatio (ucast (current ?ds)) ?b1 ?m = Inr r
        \<and> of_int (uint r) \<le> exactLeg (ucast (current ?ds)) ?b1 ?m"
      by (intro rewardRatio_le_exact) simp_all
    then obtain r where "rewardRatio (ucast (current ?ds)) ?b1 ?m = Inr r"
      and "of_int (uint r) \<le> exactLeg (ucast (current ?ds)) ?b1 ?m" by blast
    with nz show ?thesis by (simp add: currentLeg_def Let_def)
  qed
  then obtain t where t: "currentLeg s ?ds = Inr t" and tle: "of_int (uint t) \<le> ?x1" by blast
  have stake2: "(ucast (nextBalance ?ds) :: uint256) \<noteq> 0 \<longrightarrow> ratioValue ?m \<le> ratioValue ?e2"
    using g2 by auto
  from rewardRatio_le_exact [OF m e2 stake2]
  obtain r where r: "rewardRatio (ucast (nextBalance ?ds)) ?m ?e2 = Inr r"
    and rle: "of_int (uint r) \<le> exactLeg (ucast (nextBalance ?ds)) ?m ?e2" by blast
  have res: "computeRewardBalanceOfStakingPoolMember s poolId member = Inr (t + r)"
    using False t r by (simp add: computeRewardBalanceOfStakingPoolMember_def nextLeg_def Let_def)
  have "(of_int (uint (t + r)) :: rat) \<le> of_int (uint t + uint r)"
    using uint_add_le [of t r] by (simp only: of_int_le_iff)
  also have "\<dots> = of_int (uint t) + of_int (uint r)" by simp
  also have "\<dots> \<le> ?x1 + exactLeg (ucast (nextBalance ?ds)) ?m ?e2"
    using tle rle by (rule add_mono)
  also have "\<dots> = exactReward s poolId member"
    using False by (simp add: exactReward_def Let_def)
  finally show ?thesis using res by blast
qed

text \<open>A member with stake in both legs, on ratios that do not divide evenly: the legs give
  166 and 333 where the exact amounts are 500/3 and 1000/3, so the contract computes 499
  and the exact reward is 500.\<close>

theorem truncation_never_overpays_witness:
  "neededSnapshotsSet scenarioThirds pool1 memberA \<and> ratiosCumulative scenarioThirds pool1 memberA
   \<and> current (delegatedStakeToPoolByOwner scenarioThirds memberA pool1) \<noteq> 0
   \<and> nextBalance (delegatedStakeToPoolByOwner scenarioThirds memberA pool1) \<noteq> 0
   \<and> computeRewardBalanceOfStakingPoolMember scenarioThirds pool1 memberA = Inr 499
   \<and> exactReward scenarioThirds pool1 memberA = 500
   \<and> (of_int (uint (499 :: uint256)) :: rat) \<le> 500"
proof -
  have f: "delegatedStakeToPoolByOwner scenarioThirds memberA pool1 = recordBoth"
    "getCurrentEpoch scenarioThirds = 4" "rewardRatioSums scenarioThirds = thirdsLedger"
    by (simp_all add: scenarioThirds_def scenarioLateGap_def getCurrentEpoch_def)
  have 1: "neededSnapshotsSet scenarioThirds pool1 memberA"
    by (simp add: neededSnapshotsSet_def f recordBoth_def thirdsLedger_def)
  have 2: "ratiosCumulative scenarioThirds pool1 memberA"
    by (simp add: ratiosCumulative_def ratioValue_def f recordBoth_def thirdsLedger_def)
  have 3: "current (delegatedStakeToPoolByOwner scenarioThirds memberA pool1) \<noteq> 0"
    "nextBalance (delegatedStakeToPoolByOwner scenarioThirds memberA pool1) \<noteq> 0"
    by (simp_all add: f recordBoth_def)
  from truncation_never_overpays [OF 1 2] 1 2 3 scenarioThirds_reward scenarioThirds_exact
  show ?thesis by simp
qed

section \<open>Termination\<close>

text \<open>
  C10. Both operations complete on every input state, normally or with an error, in a
  fixed number of steps that does not depend on the members of the pool. The steps are the
  reads of storage and the external call. The computation takes at most 8 steps and the
  settlement at most 11, whatever the state; the only stake record either reads is that of
  the member it is called for, so there is no loop over the members, and the records of
  all other members, however many, change neither the steps nor the result. The
  computation fails only on a division by zero, the settlement only on that, on its
  \<open>require\<close> or on the external call failing.
\<close>

theorem operations_bounded:
  assumes "delegations member poolId = delegatedStakeToPoolByOwner s member poolId"
  shows "snd (computeRewardBalanceSteps s poolId member)
         = computeRewardBalanceOfStakingPoolMember s poolId member
     \<and> snd (syncRewardBalanceSteps s poolId member)
         = syncRewardBalanceOfStakingPoolMember s poolId member
     \<and> length (fst (computeRewardBalanceSteps s poolId member)) \<le> 8
     \<and> length (fst (syncRewardBalanceSteps s poolId member)) \<le> 11
     \<and> (\<forall>m p. ReadStake m p \<in> set (fst (syncRewardBalanceSteps s poolId member))
              \<longrightarrow> m = member \<and> p = poolId)
     \<and> computeRewardBalanceSteps (s\<lparr>delegatedStakeToPoolByOwner := delegations\<rparr>) poolId member
         = computeRewardBalanceSteps s poolId member
     \<and> computeRewardBalanceOfStakingPoolMember (s\<lparr>delegatedStakeToPoolByOwner := delegations\<rparr>)
          poolId member
        = computeRewardBalanceOfStakingPoolMember s poolId member
     \<and> (computeRewardBalanceOfStakingPoolMember s poolId member = Inl DivisionByZero
          \<or> (\<exists>r. computeRewardBalanceOfStakingPoolMember s poolId member = Inr r))
     \<and> (syncRewardBalanceOfStakingPoolMember s poolId member = Inl DivisionByZero
          \<or> syncRewardBalanceOfStakingPoolMember s poolId member = Inl (RequireFailed ''eyo'')
          \<or> syncRewardBalanceOfStakingPoolMember s poolId member = Inl ExternalCallReverted
          \<or> (\<exists>s'. syncRewardBalanceOfStakingPoolMember s poolId member = Inr s'))"
proof -
  have same: "computeRewardBalanceOfStakingPoolMember
                (s\<lparr>delegatedStakeToPoolByOwner := delegations\<rparr>) poolId member
              = computeRewardBalanceOfStakingPoolMember s poolId member"
    using assms
    by (simp add: computeRewardBalanceOfStakingPoolMember_def currentLeg_other_members
        nextLeg_other_members getCurrentEpoch_def Let_def cong: sum.case_cong)
  note computeRewardBalanceSteps_result [of s poolId member]
    syncRewardBalanceSteps_result [of s poolId member] same
  moreover have "length (fst (computeRewardBalanceSteps s poolId member)) \<le> 8"
    using computeRewardBalanceSteps_shape [of s poolId member] by blast
  moreover note syncRewardBalanceSteps_shape [of s poolId member]
    computeRewardBalanceSteps_other_members [of delegations member poolId s, OF assms]
    compute_cases [of s poolId member] sync_cases [of s poolId member]
  ultimately show ?thesis by blast
qed

text \<open>In the scenario, with a record added for B: the settlement of A takes nine steps,
  reads no record but A's, and the computation for A takes the same steps to the same
  result with B's record in place.\<close>

theorem operations_bounded_witness:
  "moreMembers memberA pool1 = delegatedStakeToPoolByOwner scenario memberA pool1
   \<and> moreMembers memberB pool1 \<noteq> delegatedStakeToPoolByOwner scenario memberB pool1
   \<and> fst (syncRewardBalanceSteps scenario pool1 memberA)
       = [ReadStake memberA pool1, ReadEpoch, ReadEpoch, ReadEpoch, ReadRatio 1, ReadRatio 2,
          ReadVault, ReadVault, CallVault pool1 memberA 1000]
   \<and> length (fst (syncRewardBalanceSteps scenario pool1 memberA)) \<le> 11
   \<and> snd (syncRewardBalanceSteps scenario pool1 memberA) = Inr scenarioPaid
   \<and> syncRewardBalanceOfStakingPoolMember scenario pool1 memberA = Inr scenarioPaid
   \<and> computeRewardBalanceSteps (scenario\<lparr>delegatedStakeToPoolByOwner := moreMembers\<rparr>)
         pool1 memberA
       = computeRewardBalanceSteps scenario pool1 memberA
   \<and> snd (computeRewardBalanceSteps scenario pool1 memberA) = Inr 1000"
proof -
  have 1: "moreMembers memberA pool1 = delegatedStakeToPoolByOwner scenario memberA pool1"
    by (simp add: moreMembers_def memberA_def memberB_def)
  have 2: "moreMembers memberB pool1 \<noteq> delegatedStakeToPoolByOwner scenario memberB pool1"
    by (simp add: moreMembers_def scenario_fields recordA_def emptyRecord_def)
  from operations_bounded [of moreMembers memberA pool1 scenario, OF 1]
  have "snd (computeRewardBalanceSteps scenario pool1 memberA)
         = computeRewardBalanceOfStakingPoolMember scenario pool1 memberA"
    and "snd (syncRewardBalanceSteps scenario pool1 memberA)
         = syncRewardBalanceOfStakingPoolMember scenario pool1 memberA"
    and "length (fst (syncRewardBalanceSteps scenario pool1 memberA)) \<le> 11"
    and "computeRewardBalanceSteps (scenario\<lparr>delegatedStakeToPoolByOwner := moreMembers\<rparr>)
           pool1 memberA
         = computeRewardBalanceSteps scenario pool1 memberA"
    by blast+
  with 1 2 scenario_sync_steps scenario_sync scenario_reward show ?thesis by simp
qed

end
